theory Spec2Isabelle
  imports Main
begin

section \<open>The settings editor of colrev: \<open>frontend/src/App.tsx\<close>\<close>

text \<open>
  \<open>App\<close> is a React function component. It keeps five state variables
  (\<open>useState\<close>), loads a settings document from \<open>dataService\<close> once, lets four child
  editors replace one variable each, and writes a document back on the save button or on
  Ctrl+S.

  The embedding is by explicit state passing. A handler takes the component state and
  returns the effects it causes on the outside (calls of \<open>dataService\<close>, \<open>alert\<close>,
  \<open>preventDefault\<close>), in the order the code causes them, and the state after it.
  The two \<open>async\<close> functions are given in their two parts, the code before the
  \<open>await\<close> and the code after it. The parts are the events of the event loop: between
  the two parts of one invocation other handlers may run. Each function is also given as
  the composition of its parts, taking the outcome of the promise as an argument: that
  is the invocation run to its end with nothing else in between.
\<close>

subsection \<open>Data\<close>

text \<open>
  \<open>Project\<close>, \<open>Source\<close>, \<open>Prep\<close> and \<open>Script\<close> are classes of \<open>./models\<close> that
  \<open>App\<close> only stores and forwards: they are the type parameters \<open>'p\<close>, \<open>'s\<close>, \<open>'r\<close>
  and \<open>'c\<close>. \<open>Settings\<close> is the class of \<open>./models/settings\<close>; \<open>App\<close> reads and
  writes its members \<open>project\<close>, \<open>sources\<close>, \<open>prep\<close> and \<open>data.scripts\<close>. Whatever
  else the \<open>data\<close> object holds is \<open>data_other\<close>, of type \<open>'o\<close>.
\<close>

record ('c, 'o) Data =
  data_scripts :: "'c list"
  data_other :: 'o

record ('p, 's, 'r, 'c, 'o) Settings =
  settings_project :: 'p
  settings_sources :: "'s list"
  settings_prep :: 'r
  settings_data :: "('c, 'o) Data"

text \<open>The five \<open>useState\<close> variables (lines 19 to 23).\<close>

record ('p, 's, 'r, 'c) App =
  project :: 'p
  sources :: "'s list"
  prep :: 'r
  scripts :: "'c list"
  isFileSaved :: bool

text \<open>
  The state of the first render: \<open>new Project()\<close> and \<open>new Prep()\<close> are constructors of
  \<open>./models\<close> and are taken as parameters.
\<close>

definition App_init :: "'p \<Rightarrow> 'r \<Rightarrow> ('p, 's, 'r, 'c) App" where
  "App_init new_Project new_Prep =
     \<lparr>project = new_Project, sources = [], prep = new_Prep, scripts = [],
      isFileSaved = False\<rparr>"

text \<open>What a handler does to the outside, with the document type \<open>'d\<close>.\<close>

datatype 'd effect =
    GetSettings
  | SaveSettings 'd
  | Alert string
  | PreventDefault

text \<open>How the promise of \<open>dataService.saveSettings\<close> ends.\<close>

datatype outcome = Resolved | Rejected

text \<open>
  The members of the keyboard event that a handler can read: the four modifier flags and
  the key code \<open>which\<close>.
\<close>

record key_event =
  ctrlKey :: bool
  shiftKey :: bool
  altKey :: bool
  metaKey :: bool
  which :: int

text \<open>\<open>KEY_S\<close> is imported from the package \<open>keycode-js\<close>, where it is 83.\<close>

definition KEY_S :: int where
  "KEY_S = 83"

subsection \<open>Loading (lines 41 to 48)\<close>

definition loadData_begin :: "('p, 's, 'r, 'c) App \<Rightarrow> ('p, 's, 'r, 'c) App" where
  "loadData_begin s = s\<lparr>isFileSaved := False\<rparr>"

definition loadData_resume ::
  "('p, 's, 'r, 'c, 'o) Settings \<Rightarrow> ('p, 's, 'r, 'c) App \<Rightarrow> ('p, 's, 'r, 'c) App" where
  "loadData_resume settings s =
     s\<lparr>project := settings_project settings,
       sources := settings_sources settings,
       prep := settings_prep settings,
       scripts := data_scripts (settings_data settings)\<rparr>"

text \<open>
  \<open>getSettings\<close> answers \<open>Some settings\<close>, or \<open>None\<close> when its promise is rejected: then the
  rest of \<open>loadData\<close> is not run.
\<close>

definition loadData ::
  "('p, 's, 'r, 'c, 'o) Settings option \<Rightarrow> ('p, 's, 'r, 'c) App \<Rightarrow>
   ('p, 's, 'r, 'c, 'o) Settings effect list \<times> ('p, 's, 'r, 'c) App" where
  "loadData answer s =
     (case answer of
        None \<Rightarrow> ([GetSettings], loadData_begin s)
      | Some settings \<Rightarrow> ([GetSettings], loadData_resume settings (loadData_begin s)))"

subsection \<open>The change handlers of the four editors (lines 50 to 68)\<close>

definition onProjectChanged :: "'p \<Rightarrow> ('p, 's, 'r, 'c) App \<Rightarrow> ('p, 's, 'r, 'c) App" where
  "onProjectChanged p s = s\<lparr>isFileSaved := False, project := p\<rparr>"

definition onSourcesChanged :: "'s list \<Rightarrow> ('p, 's, 'r, 'c) App \<Rightarrow> ('p, 's, 'r, 'c) App" where
  "onSourcesChanged ss s = s\<lparr>isFileSaved := False, sources := ss\<rparr>"

definition onPrepChanged :: "'r \<Rightarrow> ('p, 's, 'r, 'c) App \<Rightarrow> ('p, 's, 'r, 'c) App" where
  "onPrepChanged r s = s\<lparr>isFileSaved := False, prep := r\<rparr>"

definition onScriptsChanged :: "'c list \<Rightarrow> ('p, 's, 'r, 'c) App \<Rightarrow> ('p, 's, 'r, 'c) App" where
  "onScriptsChanged cs s = s\<lparr>isFileSaved := False, scripts := cs\<rparr>"

subsection \<open>Saving (lines 70 to 85)\<close>

text \<open>
  Lines 71 to 75. \<open>new Settings()\<close> takes no argument; the object it returns is the
  parameter \<open>new_Settings\<close>. The four assignments overwrite \<open>project\<close>, \<open>sources\<close>,
  \<open>prep\<close> and \<open>data.scripts\<close> of that object and nothing else.
\<close>

definition onSave_settings ::
  "('p, 's, 'r, 'c, 'o) Settings \<Rightarrow> ('p, 's, 'r, 'c) App \<Rightarrow> ('p, 's, 'r, 'c, 'o) Settings" where
  "onSave_settings new_Settings s =
     new_Settings
       \<lparr>settings_project := project s,
        settings_sources := sources s,
        settings_prep := prep s,
        settings_data := (settings_data new_Settings)\<lparr>data_scripts := scripts s\<rparr>\<rparr>"

text \<open>Up to the \<open>await\<close>: the document, the flag, the call of \<open>saveSettings\<close>.\<close>

definition onSave_begin ::
  "('p, 's, 'r, 'c, 'o) Settings \<Rightarrow> ('p, 's, 'r, 'c) App \<Rightarrow>
   ('p, 's, 'r, 'c, 'o) Settings effect list \<times> ('p, 's, 'r, 'c) App" where
  "onSave_begin new_Settings s =
     ([SaveSettings (onSave_settings new_Settings s)], s\<lparr>isFileSaved := False\<rparr>)"

text \<open>After the \<open>await\<close>: line 81, or the \<open>catch\<close> block.\<close>

definition onSave_resume ::
  "outcome \<Rightarrow> ('p, 's, 'r, 'c) App \<Rightarrow> 'd effect list \<times> ('p, 's, 'r, 'c) App" where
  "onSave_resume r s =
     (case r of
        Resolved \<Rightarrow> ([], s\<lparr>isFileSaved := True\<rparr>)
      | Rejected \<Rightarrow> ([Alert ''Error saving file.''], s))"

definition onSave ::
  "('p, 's, 'r, 'c, 'o) Settings \<Rightarrow> outcome \<Rightarrow> ('p, 's, 'r, 'c) App \<Rightarrow>
   ('p, 's, 'r, 'c, 'o) Settings effect list \<times> ('p, 's, 'r, 'c) App" where
  "onSave new_Settings r s =
     (case onSave_begin new_Settings s of
        (fx, s1) \<Rightarrow> (case onSave_resume r s1 of (fx', s2) \<Rightarrow> (fx @ fx', s2)))"

subsection \<open>The keyboard handler (lines 87 to 92)\<close>

definition onKeyDown ::
  "('p, 's, 'r, 'c, 'o) Settings \<Rightarrow> key_event \<Rightarrow> outcome \<Rightarrow> ('p, 's, 'r, 'c) App \<Rightarrow>
   ('p, 's, 'r, 'c, 'o) Settings effect list \<times> ('p, 's, 'r, 'c) App" where
  "onKeyDown new_Settings e r s =
     (if ctrlKey e \<and> which e = KEY_S
      then (case onSave new_Settings r s of (fx, s') \<Rightarrow> (PreventDefault # fx, s'))
      else ([], s))"

subsection \<open>Reading a list of effects\<close>

fun saved_documents :: "'d effect list \<Rightarrow> 'd list" where
  "saved_documents [] = []"
| "saved_documents (SaveSettings d # fx) = d # saved_documents fx"
| "saved_documents (_ # fx) = saved_documents fx"

fun alerts :: "'d effect list \<Rightarrow> string list" where
  "alerts [] = []"
| "alerts (Alert m # fx) = m # alerts fx"
| "alerts (_ # fx) = alerts fx"

fun default_prevented :: "'d effect list \<Rightarrow> bool" where
  "default_prevented [] = False"
| "default_prevented (PreventDefault # fx) = True"
| "default_prevented (_ # fx) = default_prevented fx"

text \<open>\<open>loadData\<close> with the answer \<open>D\<close>, then \<open>onSave\<close>, with no handler in between.\<close>

definition load_then_save ::
  "('p, 's, 'r, 'c, 'o) Settings \<Rightarrow> ('p, 's, 'r, 'c, 'o) Settings \<Rightarrow> outcome \<Rightarrow>
   ('p, 's, 'r, 'c) App \<Rightarrow>
   ('p, 's, 'r, 'c, 'o) Settings effect list \<times> ('p, 's, 'r, 'c) App" where
  "load_then_save new_Settings D r s =
     (case loadData (Some D) s of
        (fx, s1) \<Rightarrow> (case onSave new_Settings r s1 of (fx', s2) \<Rightarrow> (fx @ fx', s2)))"

subsection \<open>Sequences of invocations\<close>

text \<open>
  One invocation of a handler, each run to its end, with what the outside answers:
  \<open>Load\<close> is \<open>loadData\<close>, the four \<open>Changed\<close> are the callbacks of the editors,
  \<open>Save\<close> is the click on the button, \<open>KeyDown\<close> a key pressed in the container.
\<close>

datatype ('p, 's, 'r, 'c, 'o) invocation =
    Load "('p, 's, 'r, 'c, 'o) Settings option"
  | ProjectChanged 'p
  | SourcesChanged "'s list"
  | PrepChanged 'r
  | ScriptsChanged "'c list"
  | Save outcome
  | KeyDown key_event outcome

fun step ::
  "('p, 's, 'r, 'c, 'o) Settings \<Rightarrow> ('p, 's, 'r, 'c, 'o) invocation \<Rightarrow> ('p, 's, 'r, 'c) App \<Rightarrow>
   ('p, 's, 'r, 'c, 'o) Settings effect list \<times> ('p, 's, 'r, 'c) App" where
  "step new_Settings (Load answer) s = loadData answer s"
| "step new_Settings (ProjectChanged p) s = ([], onProjectChanged p s)"
| "step new_Settings (SourcesChanged ss) s = ([], onSourcesChanged ss s)"
| "step new_Settings (PrepChanged r) s = ([], onPrepChanged r s)"
| "step new_Settings (ScriptsChanged cs) s = ([], onScriptsChanged cs s)"
| "step new_Settings (Save r) s = onSave new_Settings r s"
| "step new_Settings (KeyDown e r) s = onKeyDown new_Settings e r s"

fun run ::
  "('p, 's, 'r, 'c, 'o) Settings \<Rightarrow> ('p, 's, 'r, 'c, 'o) invocation list \<Rightarrow>
   ('p, 's, 'r, 'c) App \<Rightarrow>
   ('p, 's, 'r, 'c, 'o) Settings effect list \<times> ('p, 's, 'r, 'c) App" where
  "run new_Settings [] s = ([], s)"
| "run new_Settings (x # xs) s =
     (case step new_Settings x s of
        (fx, s1) \<Rightarrow> (case run new_Settings xs s1 of (fx', s2) \<Rightarrow> (fx @ fx', s2)))"

text \<open>An edit: a callback of one of the four editors.\<close>

fun is_edit :: "('p, 's, 'r, 'c, 'o) invocation \<Rightarrow> bool" where
  "is_edit (ProjectChanged p) = True"
| "is_edit (SourcesChanged ss) = True"
| "is_edit (PrepChanged r) = True"
| "is_edit (ScriptsChanged cs) = True"
| "is_edit x = False"

text \<open>An invocation that saves, by the button or by Ctrl+S, and whose write is resolved.\<close>

fun is_successful_save :: "('p, 's, 'r, 'c, 'o) invocation \<Rightarrow> bool" where
  "is_successful_save (Save r) = (r = Resolved)"
| "is_successful_save (KeyDown e r) = (ctrlKey e \<and> which e = KEY_S \<and> r = Resolved)"
| "is_successful_save x = False"

text \<open>
  An invocation that is neither an edit, nor a load, nor a save whose write is rejected:
  a save whose write is resolved, or a key event other than Ctrl+S.
\<close>

fun keeps_saved :: "('p, 's, 'r, 'c, 'o) invocation \<Rightarrow> bool" where
  "keeps_saved (Save r) = (r = Resolved)"
| "keeps_saved (KeyDown e r) = (if ctrlKey e \<and> which e = KEY_S then r = Resolved else True)"
| "keeps_saved x = False"

subsection \<open>Events\<close>

text \<open>
  An \<open>await\<close> gives the event loop back: while the promise is pending any other handler
  may run, also a second \<open>onSave\<close>, and nothing in \<open>App\<close> prevents it. An event is one
  piece of code that runs without interruption: the part of an async function before its
  \<open>await\<close>, the part after it, or a synchronous handler. \<open>Load_rejected\<close> is the
  rejection of \<open>getSettings\<close>, after which no code of \<open>loadData\<close> runs. A key press
  runs \<open>onKeyDown\<close> and, through the call \<open>onSave()\<close> that is not awaited, \<open>onSave\<close>
  up to its \<open>await\<close>.
\<close>

definition onKeyDown_begin ::
  "('p, 's, 'r, 'c, 'o) Settings \<Rightarrow> key_event \<Rightarrow> ('p, 's, 'r, 'c) App \<Rightarrow>
   ('p, 's, 'r, 'c, 'o) Settings effect list \<times> ('p, 's, 'r, 'c) App" where
  "onKeyDown_begin new_Settings e s =
     (if ctrlKey e \<and> which e = KEY_S
      then (case onSave_begin new_Settings s of (fx, s') \<Rightarrow> (PreventDefault # fx, s'))
      else ([], s))"

datatype ('p, 's, 'r, 'c, 'o) event =
    Load_begin
  | Load_resume "('p, 's, 'r, 'c, 'o) Settings"
  | Load_rejected
  | Project_changed 'p
  | Sources_changed "'s list"
  | Prep_changed 'r
  | Scripts_changed "'c list"
  | Save_begin
  | Save_resolved
  | Save_rejected
  | Key_down key_event

fun event_step ::
  "('p, 's, 'r, 'c, 'o) Settings \<Rightarrow> ('p, 's, 'r, 'c, 'o) event \<Rightarrow> ('p, 's, 'r, 'c) App \<Rightarrow>
   ('p, 's, 'r, 'c, 'o) Settings effect list \<times> ('p, 's, 'r, 'c) App" where
  "event_step new_Settings Load_begin s = ([GetSettings], loadData_begin s)"
| "event_step new_Settings (Load_resume settings) s = ([], loadData_resume settings s)"
| "event_step new_Settings Load_rejected s = ([], s)"
| "event_step new_Settings (Project_changed p) s = ([], onProjectChanged p s)"
| "event_step new_Settings (Sources_changed ss) s = ([], onSourcesChanged ss s)"
| "event_step new_Settings (Prep_changed r) s = ([], onPrepChanged r s)"
| "event_step new_Settings (Scripts_changed cs) s = ([], onScriptsChanged cs s)"
| "event_step new_Settings Save_begin s = onSave_begin new_Settings s"
| "event_step new_Settings Save_resolved s = onSave_resume Resolved s"
| "event_step new_Settings Save_rejected s = onSave_resume Rejected s"
| "event_step new_Settings (Key_down e) s = onKeyDown_begin new_Settings e s"

fun events_run ::
  "('p, 's, 'r, 'c, 'o) Settings \<Rightarrow> ('p, 's, 'r, 'c, 'o) event list \<Rightarrow>
   ('p, 's, 'r, 'c) App \<Rightarrow>
   ('p, 's, 'r, 'c, 'o) Settings effect list \<times> ('p, 's, 'r, 'c) App" where
  "events_run new_Settings [] s = ([], s)"
| "events_run new_Settings (ev # es) s =
     (case event_step new_Settings ev s of
        (fx, s1) \<Rightarrow> (case events_run new_Settings es s1 of (fx', s2) \<Rightarrow> (fx @ fx', s2)))"

text \<open>The event in which a write is resolved: line 81 runs.\<close>

fun is_save_resolved :: "('p, 's, 'r, 'c, 'o) event \<Rightarrow> bool" where
  "is_save_resolved Save_resolved = True"
| "is_save_resolved ev = False"

text \<open>
  The events whose code calls \<open>setIsFileSaved(false)\<close>: the start of a load, the four
  change handlers, and the start of a save, by the button or by Ctrl+S.
\<close>

fun clears_flag :: "('p, 's, 'r, 'c, 'o) event \<Rightarrow> bool" where
  "clears_flag Load_begin = True"
| "clears_flag (Project_changed p) = True"
| "clears_flag (Sources_changed ss) = True"
| "clears_flag (Prep_changed r) = True"
| "clears_flag (Scripts_changed cs) = True"
| "clears_flag Save_begin = True"
| "clears_flag (Key_down e) = (ctrlKey e \<and> which e = KEY_S)"
| "clears_flag ev = False"

text \<open>
  A sequence of events that can happen, given the numbers of loads and of saves that are
  pending before it: a promise is settled only after it was made.
\<close>

fun well_formed :: "nat \<Rightarrow> nat \<Rightarrow> ('p, 's, 'r, 'c, 'o) event list \<Rightarrow> bool" where
  "well_formed l v [] = True"
| "well_formed l v (Load_begin # es) = well_formed (Suc l) v es"
| "well_formed l v (Load_resume settings # es) = (0 < l \<and> well_formed (l - 1) v es)"
| "well_formed l v (Load_rejected # es) = (0 < l \<and> well_formed (l - 1) v es)"
| "well_formed l v (Save_begin # es) = well_formed l (Suc v) es"
| "well_formed l v (Save_resolved # es) = (0 < v \<and> well_formed l (v - 1) es)"
| "well_formed l v (Save_rejected # es) = (0 < v \<and> well_formed l (v - 1) es)"
| "well_formed l v (Key_down e # es) =
     well_formed l (if ctrlKey e \<and> which e = KEY_S then Suc v else v) es"
| "well_formed l v (ev # es) = well_formed l v es"

subsection \<open>Concrete values\<close>

text \<open>
  A settings document with one more member in \<open>data\<close>, a fresh \<open>Settings\<close> without it,
  a loaded document without it, the state of the first render, and four key events. The opaque classes are strings
  here, and the other members of \<open>data\<close> a list of names and values.
\<close>

definition example_new_Settings ::
  "(string, string, string, string, (string \<times> string) list) Settings" where
  "example_new_Settings =
     \<lparr>settings_project = ''new'', settings_sources = [], settings_prep = ''new'',
      settings_data = \<lparr>data_scripts = [], data_other = []\<rparr>\<rparr>"

definition example_document ::
  "(string, string, string, string, (string \<times> string) list) Settings" where
  "example_document =
     \<lparr>settings_project = ''P'', settings_sources = [''a.csv'', ''b.bib''],
      settings_prep = ''prep'',
      settings_data = \<lparr>data_scripts = [''first'', ''second''],
                       data_other = [(''format'', ''md'')]\<rparr>\<rparr>"

definition example_plain_document ::
  "(string, string, string, string, (string \<times> string) list) Settings" where
  "example_plain_document =
     \<lparr>settings_project = ''P'', settings_sources = [''a.csv'', ''b.bib''],
      settings_prep = ''prep'',
      settings_data = \<lparr>data_scripts = [''first'', ''second''], data_other = []\<rparr>\<rparr>"

definition example_App :: "(string, string, string, string) App" where
  "example_App = App_init ''new'' ''new''"

definition ctrl_S :: key_event where
  "ctrl_S = \<lparr>ctrlKey = True, shiftKey = False, altKey = False, metaKey = False, which = 83\<rparr>"

definition ctrl_shift_alt_meta_S :: key_event where
  "ctrl_shift_alt_meta_S =
     \<lparr>ctrlKey = True, shiftKey = True, altKey = True, metaKey = True, which = 83\<rparr>"

definition plain_S :: key_event where
  "plain_S = \<lparr>ctrlKey = False, shiftKey = False, altKey = False, metaKey = False, which = 83\<rparr>"

definition ctrl_A :: key_event where
  "ctrl_A = \<lparr>ctrlKey = True, shiftKey = False, altKey = False, metaKey = False, which = 65\<rparr>"

text \<open>
  Two saves that overlap, the second resolved before the first is rejected; and a save
  made and resolved while the load is pending.
\<close>

definition overlapping_saves ::
  "(string, string, string, string, (string \<times> string) list) event list" where
  "overlapping_saves = [Save_begin, Save_begin, Save_resolved, Save_rejected]"

definition save_during_load ::
  "(string, string, string, string, (string \<times> string) list) event list" where
  "save_during_load = [Load_begin, Save_begin, Save_resolved, Load_resume example_document]"

section \<open>Properties\<close>

lemma onSave_eq:
  "onSave new_Settings r s =
     (SaveSettings (onSave_settings new_Settings s)
        # (case r of Resolved \<Rightarrow> [] | Rejected \<Rightarrow> [Alert ''Error saving file.'']),
      s\<lparr>isFileSaved := (r = Resolved)\<rparr>)"
  by (cases r) (simp_all add: onSave_def onSave_begin_def onSave_resume_def)

text \<open>
  C9. \<open>onSave\<close> leaves \<open>project\<close>, \<open>sources\<close>, \<open>prep\<close> and \<open>scripts\<close> as they are,
  whether the write is resolved or rejected: the state after it is the state before it
  with \<open>isFileSaved\<close> set, to \<open>True\<close> when the write is resolved and to \<open>False\<close> when it
  is rejected.
\<close>

theorem onSave_frame:
  "project (snd (onSave new_Settings r s)) = project s \<and>
   sources (snd (onSave new_Settings r s)) = sources s \<and>
   prep (snd (onSave new_Settings r s)) = prep s \<and>
   scripts (snd (onSave new_Settings r s)) = scripts s \<and>
   snd (onSave new_Settings r s) = s\<lparr>isFileSaved := (r = Resolved)\<rparr>"
  by (simp add: onSave_eq)

lemma loadData_Some_eq:
  "loadData (Some D) s = ([GetSettings], loadData_resume D (loadData_begin s))"
  by (simp add: loadData_def)

lemma load_then_save_eq:
  "load_then_save new_Settings D r s =
     (GetSettings # fst (onSave new_Settings r (loadData_resume D (loadData_begin s))),
      snd (onSave new_Settings r (loadData_resume D (loadData_begin s))))"
  by (simp add: load_then_save_def loadData_Some_eq split: prod.splits)

lemma load_then_save_documents:
  "saved_documents (fst (load_then_save new_Settings D r s)) =
     [D\<lparr>settings_data := (settings_data D)\<lparr>data_other := data_other (settings_data new_Settings)\<rparr>\<rparr>]"
  by (cases r)
    (simp_all add: load_then_save_eq onSave_eq onSave_settings_def loadData_resume_def
      loadData_begin_def)

text \<open>
  C6. \<open>onPrepChanged newPrep\<close> makes \<open>prep\<close> equal to \<open>newPrep\<close> and leaves \<open>project\<close>,
  \<open>sources\<close> and \<open>scripts\<close> as they are; each of the other three handlers likewise
  replaces its own variable and, beside \<open>isFileSaved\<close>, nothing else.
\<close>

theorem change_handlers_frame:
  "onPrepChanged newPrep s = s\<lparr>prep := newPrep, isFileSaved := False\<rparr> \<and>
   prep (onPrepChanged newPrep s) = newPrep \<and>
   project (onPrepChanged newPrep s) = project s \<and>
   sources (onPrepChanged newPrep s) = sources s \<and>
   scripts (onPrepChanged newPrep s) = scripts s \<and>
   onProjectChanged newProject s = s\<lparr>project := newProject, isFileSaved := False\<rparr> \<and>
   onSourcesChanged newSources s = s\<lparr>sources := newSources, isFileSaved := False\<rparr> \<and>
   onScriptsChanged newScripts s = s\<lparr>scripts := newScripts, isFileSaved := False\<rparr>"
  by (simp add: onPrepChanged_def onProjectChanged_def onSourcesChanged_def
      onScriptsChanged_def)

text \<open>
  C7. After \<open>loadData\<close> with the answer \<open>D\<close> and then \<open>onSave\<close>, with no edit, the one
  document handed to \<open>saveSettings\<close> has the list \<open>sources\<close> of \<open>D\<close> and the list
  \<open>data.scripts\<close> of \<open>D\<close>: the same elements in the same order.
\<close>

theorem load_then_save_order:
  "map settings_sources (saved_documents (fst (load_then_save new_Settings D r s))) =
     [settings_sources D] \<and>
   map (\<lambda>d. data_scripts (settings_data d))
       (saved_documents (fst (load_then_save new_Settings D r s))) =
     [data_scripts (settings_data D)]"
  by (simp add: load_then_save_documents)

subsection \<open>The keyboard handler\<close>

lemma onKeyDown_eq:
  "onKeyDown new_Settings e r s =
     (if ctrlKey e \<and> which e = KEY_S
      then (PreventDefault # fst (onSave new_Settings r s), snd (onSave new_Settings r s))
      else ([], s))"
  by (simp add: onKeyDown_def split: prod.splits)

text \<open>
  C5. A key event with \<open>ctrlKey\<close> set and \<open>which\<close> equal to \<open>KEY_S\<close> makes
  \<open>onKeyDown\<close> call \<open>preventDefault\<close> and then do what \<open>onSave\<close> does: the same effects
  after the \<open>preventDefault\<close>, and the same state at the end. Every other key event
  causes no effect and leaves the state as it is.
\<close>

theorem onKeyDown_save_chord:
  "(ctrlKey e \<and> which e = KEY_S \<longrightarrow>
      fst (onKeyDown new_Settings e r s) = PreventDefault # fst (onSave new_Settings r s) \<and>
      default_prevented (fst (onKeyDown new_Settings e r s)) \<and>
      snd (onKeyDown new_Settings e r s) = snd (onSave new_Settings r s)) \<and>
   (\<not> (ctrlKey e \<and> which e = KEY_S) \<longrightarrow>
      fst (onKeyDown new_Settings e r s) = [] \<and>
      snd (onKeyDown new_Settings e r s) = s)"
  by (simp add: onKeyDown_eq)

theorem onKeyDown_save_chord_witness:
  "snd (onKeyDown example_new_Settings ctrl_S Resolved example_App) =
     snd (onSave example_new_Settings Resolved example_App) \<and>
   fst (onKeyDown example_new_Settings ctrl_S Resolved example_App) =
     PreventDefault # fst (onSave example_new_Settings Resolved example_App) \<and>
   isFileSaved (snd (onKeyDown example_new_Settings ctrl_S Resolved example_App)) \<and>
   snd (onKeyDown example_new_Settings ctrl_A Resolved example_App) = example_App \<and>
   snd (onKeyDown example_new_Settings plain_S Resolved example_App) = example_App"
  using onKeyDown_save_chord [of ctrl_S example_new_Settings Resolved example_App]
    onKeyDown_save_chord [of ctrl_A example_new_Settings Resolved example_App]
    onKeyDown_save_chord [of plain_S example_new_Settings Resolved example_App]
  by (simp add: ctrl_S_def ctrl_A_def plain_S_def KEY_S_def onSave_eq)

text \<open>
  C10. When \<open>ctrlKey\<close> is set and \<open>which\<close> is \<open>KEY_S\<close>, \<open>onKeyDown\<close> saves and calls
  \<open>preventDefault\<close> whatever \<open>shiftKey\<close>, \<open>altKey\<close> and \<open>metaKey\<close> are; and an event
  for which \<open>onKeyDown\<close> calls \<open>preventDefault\<close> has \<open>ctrlKey\<close> set and \<open>which\<close> equal
  to \<open>KEY_S\<close>.
\<close>

theorem onKeyDown_modifiers:
  "(ctrlKey e \<and> which e = KEY_S \<longrightarrow>
      saved_documents
        (fst (onKeyDown new_Settings (e\<lparr>shiftKey := a, altKey := b, metaKey := c\<rparr>) r s)) =
        [onSave_settings new_Settings s] \<and>
      onKeyDown new_Settings (e\<lparr>shiftKey := a, altKey := b, metaKey := c\<rparr>) r s =
        (PreventDefault # fst (onSave new_Settings r s), snd (onSave new_Settings r s)) \<and>
      default_prevented
        (fst (onKeyDown new_Settings (e\<lparr>shiftKey := a, altKey := b, metaKey := c\<rparr>) r s))) \<and>
   (default_prevented (fst (onKeyDown new_Settings e r s)) \<longrightarrow>
      ctrlKey e \<and> which e = KEY_S)"
  by (cases r) (simp_all add: onKeyDown_eq onSave_eq)

theorem onKeyDown_modifiers_witness:
  "saved_documents
     (fst (onKeyDown example_new_Settings ctrl_shift_alt_meta_S Resolved example_App)) =
     [onSave_settings example_new_Settings example_App] \<and>
   default_prevented
     (fst (onKeyDown example_new_Settings ctrl_shift_alt_meta_S Resolved example_App)) \<and>
   \<not> default_prevented (fst (onKeyDown example_new_Settings plain_S Resolved example_App)) \<and>
   \<not> default_prevented (fst (onKeyDown example_new_Settings ctrl_A Resolved example_App))"
  using onKeyDown_modifiers
      [of ctrl_S example_new_Settings True True True Resolved example_App]
    onKeyDown_modifiers
      [of plain_S example_new_Settings False False False Resolved example_App]
    onKeyDown_modifiers
      [of ctrl_A example_new_Settings False False False Resolved example_App]
  by (simp add: ctrl_S_def ctrl_A_def plain_S_def ctrl_shift_alt_meta_S_def KEY_S_def
      onKeyDown_eq onSave_eq)

subsection \<open>What \<open>onSave\<close> writes into \<open>data\<close>\<close>

text \<open>
  \<open>loadData\<close> stores \<open>settings.data.scripts\<close> and no other member of \<open>settings.data\<close>,
  and \<open>onSave\<close> starts from \<open>new Settings()\<close>. So a member of \<open>data\<close> other than
  \<open>scripts\<close> does not reach the document that is written, whatever \<open>new Settings()\<close>
  is: the written document has that member as \<open>new Settings()\<close> made it.

  C1, as stated, fails: the loaded document has \<open>format\<close> in \<open>data\<close>, the fresh
  \<open>Settings\<close> has no such member, and the document written after \<open>loadData\<close> and
  \<open>onSave\<close> has none.
\<close>

theorem load_then_save_data_counterexample:
  "map (\<lambda>d. data_other (settings_data d))
     (saved_documents
        (fst (load_then_save example_new_Settings example_document Resolved example_App))) =
     [[]] \<and>
   \<not> map (\<lambda>d. data_other (settings_data d))
     (saved_documents
        (fst (load_then_save example_new_Settings example_document Resolved example_App))) =
     [data_other (settings_data example_document)]"
  by (simp add: load_then_save_documents example_new_Settings_def example_document_def)

text \<open>
  C1, amended. In every state, the \<open>data\<close> object of the one document that \<open>onSave\<close>
  hands to \<open>saveSettings\<close> has the stored \<open>scripts\<close>, and its other members are those
  of \<open>new Settings()\<close>. After \<open>loadData\<close> with the answer \<open>D\<close> and \<open>onSave\<close>, the other
  members of \<open>data\<close> in the written document are those of \<open>new Settings()\<close>; they are
  those of \<open>D\<close> exactly when \<open>D\<close> has them as \<open>new Settings()\<close> does.
\<close>

theorem onSave_data:
  "data_scripts (settings_data (onSave_settings new_Settings s)) = scripts s \<and>
   data_other (settings_data (onSave_settings new_Settings s)) =
     data_other (settings_data new_Settings) \<and>
   saved_documents (fst (onSave new_Settings r s)) = [onSave_settings new_Settings s] \<and>
   map (\<lambda>d. data_other (settings_data d))
     (saved_documents (fst (load_then_save new_Settings D r s))) =
     [data_other (settings_data new_Settings)] \<and>
   (map (\<lambda>d. data_other (settings_data d))
      (saved_documents (fst (load_then_save new_Settings D r s))) =
      [data_other (settings_data D)]) =
     (data_other (settings_data new_Settings) = data_other (settings_data D))"
  by (cases r) (simp_all add: load_then_save_documents onSave_eq onSave_settings_def)

text \<open>
  C2, as stated, fails on the same document: what is written after \<open>loadData\<close> and
  \<open>onSave\<close> is not the document that was loaded.
\<close>

theorem load_then_save_round_trip_counterexample:
  "\<not> saved_documents
       (fst (load_then_save example_new_Settings example_document Resolved example_App)) =
     [example_document]"
  by (simp add: load_then_save_documents example_new_Settings_def example_document_def)

lemma Settings_data_other_update_eq:
  "(D\<lparr>settings_data := (settings_data D)\<lparr>data_other := x\<rparr>\<rparr> = D) =
     (x = data_other (settings_data D))"
proof
  assume "D\<lparr>settings_data := (settings_data D)\<lparr>data_other := x\<rparr>\<rparr> = D"
  then have "data_other (settings_data (D\<lparr>settings_data := (settings_data D)\<lparr>data_other := x\<rparr>\<rparr>)) =
      data_other (settings_data D)"
    by simp
  then show "x = data_other (settings_data D)" by simp
next
  assume "x = data_other (settings_data D)"
  then show "D\<lparr>settings_data := (settings_data D)\<lparr>data_other := x\<rparr>\<rparr> = D" by simp
qed

text \<open>
  C2, amended. After \<open>loadData\<close> with the answer \<open>D\<close> and then \<open>onSave\<close>, with no edit
  in between, \<open>saveSettings\<close> is handed one document: \<open>D\<close> with the members of \<open>data\<close>
  other than \<open>scripts\<close> replaced by those of \<open>new Settings()\<close>. It is equal to \<open>D\<close>
  exactly when \<open>D\<close> has those members as \<open>new Settings()\<close> does.
\<close>

theorem load_then_save_round_trip:
  "saved_documents (fst (load_then_save new_Settings D r s)) =
     [D\<lparr>settings_data :=
          (settings_data D)\<lparr>data_other := data_other (settings_data new_Settings)\<rparr>\<rparr>] \<and>
   (saved_documents (fst (load_then_save new_Settings D r s)) = [D]) =
     (data_other (settings_data new_Settings) = data_other (settings_data D))"
  by (simp add: load_then_save_documents Settings_data_other_update_eq)

theorem load_then_save_round_trip_witness:
  "data_other (settings_data example_new_Settings) =
     data_other (settings_data example_plain_document) \<and>
   saved_documents
     (fst (load_then_save example_new_Settings example_plain_document Resolved example_App)) =
     [example_plain_document]"
  using load_then_save_round_trip
      [of example_new_Settings example_plain_document Resolved example_App]
  by (simp add: example_new_Settings_def example_plain_document_def)

subsection \<open>Events and invocations\<close>

lemma events_run_Nil:
  "events_run new_Settings [] s = ([], s)"
  by simp

lemma snd_events_run_Cons:
  "snd (events_run new_Settings (ev # es) s) =
     snd (events_run new_Settings es (snd (event_step new_Settings ev s)))"
  by (simp split: prod.splits)

lemma fst_events_run_Cons:
  "fst (events_run new_Settings (ev # es) s) =
     fst (event_step new_Settings ev s) @
     fst (events_run new_Settings es (snd (event_step new_Settings ev s)))"
  by (simp split: prod.splits)

lemma snd_events_run_append:
  "snd (events_run new_Settings (es @ es') s) =
     snd (events_run new_Settings es' (snd (events_run new_Settings es s)))"
proof (induction es arbitrary: s)
  case Nil
  show ?case by simp
next
  case (Cons ev es)
  show ?case
    by (simp only: append_Cons snd_events_run_Cons Cons.IH)
qed

lemma fst_events_run_append:
  "fst (events_run new_Settings (es @ es') s) =
     fst (events_run new_Settings es s) @
     fst (events_run new_Settings es' (snd (events_run new_Settings es s)))"
proof (induction es arbitrary: s)
  case Nil
  show ?case by simp
next
  case (Cons ev es)
  show ?case
    by (simp only: append_Cons fst_events_run_Cons snd_events_run_Cons Cons.IH append_assoc)
qed

text \<open>
  An invocation run to its end is its events with nothing in between: the definitions
  \<open>loadData\<close>, \<open>onSave\<close> and \<open>onKeyDown\<close> are the sequences of their two events.
\<close>

lemma invocations_as_events:
  "loadData (Some D) s = events_run new_Settings [Load_begin, Load_resume D] s"
  "loadData None s = events_run new_Settings [Load_begin, Load_rejected] s"
  "onSave new_Settings Resolved s = events_run new_Settings [Save_begin, Save_resolved] s"
  "onSave new_Settings Rejected s = events_run new_Settings [Save_begin, Save_rejected] s"
  "onKeyDown new_Settings e Resolved s =
     events_run new_Settings
       (Key_down e # (if ctrlKey e \<and> which e = KEY_S then [Save_resolved] else [])) s"
  "onKeyDown new_Settings e Rejected s =
     events_run new_Settings
       (Key_down e # (if ctrlKey e \<and> which e = KEY_S then [Save_rejected] else [])) s"
  by (simp_all add: loadData_def onSave_def onKeyDown_def onKeyDown_begin_def
      split: prod.splits)

lemma event_step_not_resolved:
  "\<not> isFileSaved s \<Longrightarrow> \<not> is_save_resolved ev \<Longrightarrow>
   \<not> isFileSaved (snd (event_step new_Settings ev s))"
  by (cases ev)
    (simp_all add: loadData_begin_def loadData_resume_def onProjectChanged_def
      onSourcesChanged_def onPrepChanged_def onScriptsChanged_def onSave_begin_def
      onSave_resume_def onKeyDown_begin_def)

lemma event_step_not_clearing:
  "isFileSaved s \<Longrightarrow> \<not> clears_flag ev \<Longrightarrow>
   isFileSaved (snd (event_step new_Settings ev s))"
  by (cases ev)
    (auto simp: loadData_resume_def onSave_resume_def onKeyDown_begin_def
      split: prod.splits)

lemma event_step_clearing:
  "clears_flag ev \<Longrightarrow> \<not> isFileSaved (snd (event_step new_Settings ev s))"
  by (cases ev)
    (simp_all add: loadData_begin_def onProjectChanged_def onSourcesChanged_def
      onPrepChanged_def onScriptsChanged_def onSave_begin_def onKeyDown_begin_def)

lemma event_step_becomes_saved:
  "\<not> isFileSaved s \<Longrightarrow> isFileSaved (snd (event_step new_Settings ev s)) \<Longrightarrow>
   ev = Save_resolved"
  using event_step_not_resolved [of s ev new_Settings]
  by (cases ev) auto

lemma events_run_stays_unsaved:
  "\<not> isFileSaved s \<Longrightarrow> list_all (\<lambda>ev. \<not> is_save_resolved ev) es \<Longrightarrow>
   \<not> isFileSaved (snd (events_run new_Settings es s))"
proof (induction es arbitrary: s)
  case Nil
  then show ?case by simp
next
  case (Cons ev es)
  from Cons.prems have ev: "\<not> is_save_resolved ev"
    and es: "list_all (\<lambda>ev. \<not> is_save_resolved ev) es"
    by simp_all
  from event_step_not_resolved [OF Cons.prems(1) ev]
  have "\<not> isFileSaved (snd (event_step new_Settings ev s))" .
  from Cons.IH [OF this es] show ?case
    unfolding snd_events_run_Cons .
qed

lemma events_run_stays_saved:
  "isFileSaved s \<Longrightarrow> list_all (\<lambda>ev. \<not> clears_flag ev) es \<Longrightarrow>
   isFileSaved (snd (events_run new_Settings es s))"
proof (induction es arbitrary: s)
  case Nil
  then show ?case by simp
next
  case (Cons ev es)
  from Cons.prems have ev: "\<not> clears_flag ev"
    and es: "list_all (\<lambda>ev. \<not> clears_flag ev) es"
    by simp_all
  from event_step_not_clearing [OF Cons.prems(1) ev]
  have "isFileSaved (snd (event_step new_Settings ev s))" .
  from Cons.IH [OF this es] show ?case
    unfolding snd_events_run_Cons .
qed

subsection \<open>A save whose write is rejected\<close>

text \<open>
  C4, as stated, fails in its first part when two saves overlap: a first save is
  started, a second save is started and its write is resolved, then the write of the
  first is rejected. The \<open>catch\<close> block of the first alerts once, and \<open>isFileSaved\<close>,
  set by the second, is \<open>True\<close> after it.
\<close>

theorem onSave_rejected_counterexample:
  "well_formed 0 0 overlapping_saves \<and>
   isFileSaved (snd (events_run example_new_Settings overlapping_saves example_App)) \<and>
   alerts (fst (events_run example_new_Settings overlapping_saves example_App)) =
     [''Error saving file.'']"
  by (simp add: overlapping_saves_def onSave_begin_def onSave_resume_def)

text \<open>
  C4, amended. An \<open>onSave\<close> whose write is rejected hands \<open>saveSettings\<close> one document
  when it starts and sets \<open>isFileSaved\<close> to \<open>False\<close>; when the write is rejected it
  alerts once, with the text "Error saving file.", and leaves the state as it finds it:
  there is no second write. So, with whatever events happen while the write is pending,
  the effects begin with that one write and end with that one alert, and
  \<open>isFileSaved\<close> is \<open>False\<close> afterwards provided that no write of another save is
  resolved while this one is pending; in particular when nothing happens in between.
\<close>

theorem onSave_rejected:
  "fst (event_step new_Settings Save_begin s) =
     [SaveSettings (onSave_settings new_Settings s)] \<and>
   isFileSaved (snd (event_step new_Settings Save_begin s)) = False \<and>
   fst (event_step new_Settings Save_rejected s) = [Alert ''Error saving file.''] \<and>
   snd (event_step new_Settings Save_rejected s) = s \<and>
   fst (events_run new_Settings (Save_begin # mid @ [Save_rejected]) s) =
     SaveSettings (onSave_settings new_Settings s) #
       fst (events_run new_Settings mid (snd (event_step new_Settings Save_begin s))) @
       [Alert ''Error saving file.''] \<and>
   (list_all (\<lambda>ev. \<not> is_save_resolved ev) mid \<longrightarrow>
      isFileSaved
        (snd (events_run new_Settings (Save_begin # mid @ [Save_rejected]) s)) = False) \<and>
   isFileSaved (snd (onSave new_Settings Rejected s)) = False \<and>
   alerts (fst (onSave new_Settings Rejected s)) = [''Error saving file.''] \<and>
   saved_documents (fst (onSave new_Settings Rejected s)) = [onSave_settings new_Settings s] \<and>
   fst (onSave new_Settings Rejected s) =
     [SaveSettings (onSave_settings new_Settings s), Alert ''Error saving file.'']"
proof -
  let ?s1 = "snd (event_step new_Settings Save_begin s)"
  have begin_fx: "fst (event_step new_Settings Save_begin s) =
      [SaveSettings (onSave_settings new_Settings s)]"
    by (simp add: onSave_begin_def)
  have begin_flag: "isFileSaved ?s1 = False"
    by (simp add: onSave_begin_def)
  have rejected_fx: "\<And>s'. fst (event_step new_Settings Save_rejected s') =
      [Alert ''Error saving file.'']"
    by (simp add: onSave_resume_def)
  have rejected_state: "\<And>s'::('a, 'b, 'c, 'd) App.
      snd (event_step new_Settings Save_rejected s') = s'"
    by (simp add: onSave_resume_def)
  have fx: "fst (events_run new_Settings (Save_begin # mid @ [Save_rejected]) s) =
      SaveSettings (onSave_settings new_Settings s) #
        fst (events_run new_Settings mid ?s1) @ [Alert ''Error saving file.'']"
    by (simp add: fst_events_run_Cons fst_events_run_append begin_fx rejected_fx
        events_run_Nil del: event_step.simps events_run.simps)
  have state: "snd (events_run new_Settings (Save_begin # mid @ [Save_rejected]) s) =
      snd (events_run new_Settings mid ?s1)"
    by (simp add: snd_events_run_Cons snd_events_run_append rejected_state
        events_run_Nil del: event_step.simps events_run.simps)
  have flag: "list_all (\<lambda>ev. \<not> is_save_resolved ev) mid \<longrightarrow>
      isFileSaved
        (snd (events_run new_Settings (Save_begin # mid @ [Save_rejected]) s)) = False"
    using events_run_stays_unsaved [of ?s1 mid new_Settings] begin_flag
    by (simp only: state) simp
  have atomic: "onSave new_Settings Rejected s =
      ([SaveSettings (onSave_settings new_Settings s), Alert ''Error saving file.''],
       s\<lparr>isFileSaved := False\<rparr>)"
    by (simp add: onSave_eq)
  from begin_fx begin_flag rejected_fx [of s] rejected_state [of s] fx flag atomic
  show ?thesis by simp
qed

theorem onSave_rejected_witness:
  "list_all (\<lambda>ev. \<not> is_save_resolved ev)
     [Prep_changed ''p'', Save_begin, Save_rejected, Key_down ctrl_A ::
        (string, string, string, string, (string \<times> string) list) event] \<and>
   well_formed 0 0
     (Save_begin #
        [Prep_changed ''p'', Save_begin, Save_rejected, Key_down ctrl_A ::
           (string, string, string, string, (string \<times> string) list) event] @
        [Save_rejected]) \<and>
   isFileSaved
     (snd (events_run example_new_Settings
        (Save_begin #
           [Prep_changed ''p'', Save_begin, Save_rejected, Key_down ctrl_A] @ [Save_rejected])
        example_App)) = False \<and>
   alerts
     (fst (events_run example_new_Settings
        (Save_begin #
           [Prep_changed ''p'', Save_begin, Save_rejected, Key_down ctrl_A] @ [Save_rejected])
        example_App)) = [''Error saving file.'', ''Error saving file.'']"
  using onSave_rejected
      [where new_Settings = example_new_Settings and s = example_App
         and mid = "[Prep_changed ''p'', Save_begin, Save_rejected, Key_down ctrl_A]"]
  by (simp add: ctrl_A_def KEY_S_def onSave_begin_def onSave_resume_def onPrepChanged_def
      onKeyDown_begin_def)

subsection \<open>The flag \<open>isFileSaved\<close>\<close>

lemma snd_run_Cons:
  "snd (run new_Settings (x # xs) s) = snd (run new_Settings xs (snd (step new_Settings x s)))"
  by (simp split: prod.splits)

lemma fst_run_Cons:
  "fst (run new_Settings (x # xs) s) =
     fst (step new_Settings x s) @ fst (run new_Settings xs (snd (step new_Settings x s)))"
  by (simp split: prod.splits)

lemma run_keeps_saved:
  "isFileSaved s \<Longrightarrow> list_all keeps_saved xs \<Longrightarrow> isFileSaved (snd (run new_Settings xs s))"
proof (induction xs arbitrary: s)
  case Nil
  then show ?case by simp
next
  case (Cons x xs)
  from Cons.prems have x: "keeps_saved x" and xs: "list_all keeps_saved xs"
    by simp_all
  from x Cons.prems(1) have "isFileSaved (snd (step new_Settings x s))"
    by (cases x) (auto simp: onSave_eq onKeyDown_def split: if_splits prod.splits)
  from Cons.IH [OF this xs] show ?case
    by (simp only: snd_run_Cons)
qed

lemma step_edit_not_saved:
  "is_edit x \<Longrightarrow> \<not> isFileSaved (snd (step new_Settings x s))"
  by (cases x)
    (simp_all add: onProjectChanged_def onSourcesChanged_def onPrepChanged_def
      onScriptsChanged_def)

lemma step_becomes_saved:
  "\<not> isFileSaved s \<Longrightarrow> isFileSaved (snd (step new_Settings x s)) \<Longrightarrow> is_successful_save x"
  by (cases x)
    (auto simp: onProjectChanged_def onSourcesChanged_def onPrepChanged_def
      onScriptsChanged_def loadData_def loadData_begin_def loadData_resume_def onSave_eq
      onKeyDown_def split: option.splits if_splits prod.splits)

text \<open>
  C3, as stated, fails in two of its parts. \<open>isFileSaved\<close> does not stay \<open>True\<close> until
  the next edit: after a save whose write is resolved the flag is \<open>True\<close>; a second save,
  which is no edit, sets it to \<open>False\<close> in line 77, and when its write is rejected the
  flag is \<open>False\<close> at the end. And \<open>isFileSaved\<close> need not be \<open>False\<close> when the load
  completes: the part of \<open>loadData\<close> after the \<open>await\<close> does not set the flag, so a
  save made and resolved while the load is pending leaves it \<open>True\<close>.
\<close>

theorem isFileSaved_until_edit_counterexample:
  "\<not> is_edit (Save Rejected ::
       (string, string, string, string, (string \<times> string) list) invocation) \<and>
   isFileSaved (snd (onSave example_new_Settings Resolved example_App)) \<and>
   \<not> isFileSaved
       (snd (run example_new_Settings [Save Rejected]
          (snd (onSave example_new_Settings Resolved example_App)))) \<and>
   well_formed 0 0 save_during_load \<and>
   isFileSaved (snd (events_run example_new_Settings save_during_load example_App))"
  by (simp add: onSave_eq save_during_load_def loadData_begin_def loadData_resume_def
      onSave_begin_def onSave_resume_def)

text \<open>
  C3, amended. \<open>isFileSaved\<close> is \<open>False\<close> after the first part of \<open>loadData\<close>. The
  second part leaves it as it finds it: so it is \<open>False\<close> when the load completes
  provided that no write of a save is resolved while the load is pending, and in
  particular when \<open>loadData\<close> runs with nothing in between, whatever \<open>getSettings\<close>
  answers. It is \<open>False\<close> after each of the four change handlers, whatever it was
  before. Every \<open>onSave\<close> sets it to \<open>False\<close> when it starts; the \<open>catch\<close> block leaves
  it as it finds it, so it is \<open>False\<close> after an \<open>onSave\<close> whose write is rejected and
  that runs with nothing in between. It is \<open>True\<close> when a write is resolved, and stays
  \<open>True\<close> until the next event that is an edit, the start of a load or the start of a
  save; each of these makes it \<open>False\<close>. After an \<open>onSave\<close> whose write is resolved it
  is still \<open>True\<close> after any sequence of whole invocations of which none is an edit, a
  load or a save whose write is rejected. And it goes from \<open>False\<close> to \<open>True\<close> only in
  the event in which a write is resolved, that is, only by a save, by the button or by
  Ctrl+S, whose write is resolved.
\<close>

theorem isFileSaved_lifecycle:
  "isFileSaved (loadData_begin s) = False \<and>
   isFileSaved (loadData_resume D s) = isFileSaved s \<and>
   (list_all (\<lambda>ev. \<not> is_save_resolved ev) mid \<longrightarrow>
      isFileSaved
        (snd (events_run new_Settings (Load_begin # mid @ [Load_resume D]) s)) = False) \<and>
   isFileSaved (snd (loadData answer s)) = False \<and>
   isFileSaved (onProjectChanged newProject s) = False \<and>
   isFileSaved (onSourcesChanged newSources s) = False \<and>
   isFileSaved (onPrepChanged newPrep s) = False \<and>
   isFileSaved (onScriptsChanged newScripts s) = False \<and>
   (is_edit x \<longrightarrow> isFileSaved (snd (step new_Settings x s)) = False) \<and>
   isFileSaved (snd (onSave_begin new_Settings s)) = False \<and>
   isFileSaved (snd (event_step new_Settings Save_rejected s)) = isFileSaved s \<and>
   isFileSaved (snd (onSave new_Settings Rejected s)) = False \<and>
   isFileSaved (snd (event_step new_Settings Save_resolved s)) = True \<and>
   isFileSaved (snd (onSave new_Settings Resolved s)) = True \<and>
   (list_all (\<lambda>ev. \<not> clears_flag ev) es \<longrightarrow>
      isFileSaved
        (snd (events_run new_Settings es (snd (onSave new_Settings Resolved s)))) = True) \<and>
   (clears_flag ev \<longrightarrow> isFileSaved (snd (event_step new_Settings ev s)) = False) \<and>
   (list_all keeps_saved xs \<longrightarrow>
      isFileSaved (snd (run new_Settings xs (snd (onSave new_Settings Resolved s)))) = True) \<and>
   (\<not> isFileSaved s \<and> isFileSaved (snd (event_step new_Settings ev' s)) \<longrightarrow>
      ev' = Save_resolved) \<and>
   (\<not> isFileSaved s \<and> isFileSaved (snd (step new_Settings x s)) \<longrightarrow> is_successful_save x)"
proof -
  let ?s1 = "snd (event_step new_Settings Load_begin s)"
  have load_begin: "isFileSaved (loadData_begin s) = False"
    by (simp add: loadData_begin_def)
  have load_resume: "\<And>s'. isFileSaved (loadData_resume D s') = isFileSaved s'"
    by (simp add: loadData_resume_def)
  have "snd (events_run new_Settings (Load_begin # mid @ [Load_resume D]) s) =
      loadData_resume D (snd (events_run new_Settings mid ?s1))"
    by (simp add: snd_events_run_Cons snd_events_run_append events_run_Nil
        del: events_run.simps)
  then have load_flag:
    "isFileSaved (snd (events_run new_Settings (Load_begin # mid @ [Load_resume D]) s)) =
       isFileSaved (snd (events_run new_Settings mid ?s1))"
    by (simp only: load_resume)
  have load_overlap: "list_all (\<lambda>ev. \<not> is_save_resolved ev) mid \<longrightarrow>
      isFileSaved
        (snd (events_run new_Settings (Load_begin # mid @ [Load_resume D]) s)) = False"
    using events_run_stays_unsaved [of ?s1 mid new_Settings] load_begin
    by (simp only: load_flag) simp
  have load: "isFileSaved (snd (loadData answer s)) = False"
    by (cases answer) (simp_all add: loadData_def loadData_begin_def loadData_resume_def)
  have handlers:
    "isFileSaved (onProjectChanged newProject s) = False"
    "isFileSaved (onSourcesChanged newSources s) = False"
    "isFileSaved (onPrepChanged newPrep s) = False"
    "isFileSaved (onScriptsChanged newScripts s) = False"
    by (simp_all add: onProjectChanged_def onSourcesChanged_def onPrepChanged_def
        onScriptsChanged_def)
  have edit: "is_edit x \<longrightarrow> isFileSaved (snd (step new_Settings x s)) = False"
    using step_edit_not_saved [of x new_Settings s] by simp
  have save_begin: "isFileSaved (snd (onSave_begin new_Settings s)) = False"
    by (simp add: onSave_begin_def)
  have save_rejected:
    "isFileSaved (snd (event_step new_Settings Save_rejected s)) = isFileSaved s"
    by (simp add: onSave_resume_def)
  have save_rejected_whole: "isFileSaved (snd (onSave new_Settings Rejected s)) = False"
    by (simp add: onSave_eq)
  have save_resolved: "isFileSaved (snd (event_step new_Settings Save_resolved s)) = True"
    by (simp add: onSave_resume_def)
  have save_resolved_whole: "isFileSaved (snd (onSave new_Settings Resolved s)) = True"
    by (simp add: onSave_eq)
  have stays: "list_all (\<lambda>ev. \<not> clears_flag ev) es \<longrightarrow>
      isFileSaved
        (snd (events_run new_Settings es (snd (onSave new_Settings Resolved s)))) = True"
    using events_run_stays_saved [of "snd (onSave new_Settings Resolved s)" es new_Settings]
      save_resolved_whole
    by simp
  have clears: "clears_flag ev \<longrightarrow> isFileSaved (snd (event_step new_Settings ev s)) = False"
    using event_step_clearing [of ev new_Settings s] by simp
  have stays_whole: "list_all keeps_saved xs \<longrightarrow>
      isFileSaved (snd (run new_Settings xs (snd (onSave new_Settings Resolved s)))) = True"
    using run_keeps_saved [of "snd (onSave new_Settings Resolved s)" xs new_Settings]
      save_resolved_whole
    by simp
  have becomes: "\<not> isFileSaved s \<and> isFileSaved (snd (event_step new_Settings ev' s)) \<longrightarrow>
      ev' = Save_resolved"
    using event_step_becomes_saved [of s new_Settings ev'] by blast
  have becomes_whole: "\<not> isFileSaved s \<and> isFileSaved (snd (step new_Settings x s)) \<longrightarrow>
      is_successful_save x"
    using step_becomes_saved [of s new_Settings x] by blast
  show ?thesis
    by (intro conjI load_begin load_resume load_overlap load handlers edit save_begin
        save_rejected save_rejected_whole save_resolved save_resolved_whole stays clears
        stays_whole becomes becomes_whole)
qed

theorem isFileSaved_lifecycle_witness:
  "isFileSaved
     (snd (events_run example_new_Settings
        (Load_begin # [Save_begin, Save_rejected, Prep_changed ''p''] @
           [Load_resume example_document])
        (snd (onSave example_new_Settings Resolved example_App)))) = False \<and>
   isFileSaved (snd (step example_new_Settings (PrepChanged ''p'')
      (snd (onSave example_new_Settings Resolved example_App)))) = False \<and>
   isFileSaved
     (snd (events_run example_new_Settings
        [Save_rejected, Key_down ctrl_A, Load_resume example_document, Save_resolved]
        (snd (onSave example_new_Settings Resolved example_App)))) = True \<and>
   isFileSaved
     (snd (event_step example_new_Settings (Key_down ctrl_S)
        (snd (onSave example_new_Settings Resolved example_App)))) = False \<and>
   isFileSaved (snd (run example_new_Settings
      [KeyDown ctrl_A Rejected, Save Resolved, KeyDown ctrl_S Resolved, KeyDown plain_S Rejected]
      (snd (onSave example_new_Settings Resolved example_App)))) = True \<and>
   \<not> isFileSaved example_App \<and>
   isFileSaved (snd (event_step example_new_Settings Save_resolved example_App)) \<and>
   isFileSaved (snd (step example_new_Settings (KeyDown ctrl_S Resolved) example_App)) \<and>
   is_successful_save (KeyDown ctrl_S Resolved ::
     (string, string, string, string, (string \<times> string) list) invocation)"
  using isFileSaved_lifecycle
      [where s = "snd (onSave example_new_Settings Resolved example_App)"
         and D = example_document and answer = None
         and mid = "[Save_begin, Save_rejected, Prep_changed ''p'']"
         and x = "PrepChanged ''p''"
         and new_Settings = example_new_Settings
         and es = "[Save_rejected, Key_down ctrl_A, Load_resume example_document,
           Save_resolved]"
         and ev = "Key_down ctrl_S" and ev' = Save_resolved
         and xs = "[KeyDown ctrl_A Rejected, Save Resolved, KeyDown ctrl_S Resolved,
           KeyDown plain_S Rejected]"]
    isFileSaved_lifecycle
      [where s = example_App and D = example_document and answer = None
         and mid = "[]" and x = "KeyDown ctrl_S Resolved"
         and new_Settings = example_new_Settings and es = "[]"
         and ev = Save_begin and ev' = Save_resolved and xs = "[]"]
  by (simp add: ctrl_S_def ctrl_A_def plain_S_def KEY_S_def onKeyDown_def onSave_eq
      example_App_def App_init_def onPrepChanged_def loadData_def loadData_begin_def
      loadData_resume_def onSave_begin_def onSave_resume_def onKeyDown_begin_def)

subsection \<open>Saving twice\<close>

lemma onSave_settings_isFileSaved:
  "onSave_settings new_Settings (s\<lparr>isFileSaved := b\<rparr>) = onSave_settings new_Settings s"
  by (simp add: onSave_settings_def)

text \<open>
  C8, as stated, fails in its last part: an \<open>onSave\<close> whose write is rejected also calls
  \<open>alert\<close>, so two saves in a row whose writes are rejected cause two alerts beside the
  two writes.
\<close>

theorem onSave_twice_counterexample:
  "alerts (fst (run example_new_Settings [Save Rejected, Save Rejected] example_App)) =
     [''Error saving file.'', ''Error saving file.''] \<and>
   \<not> fst (run example_new_Settings [Save Rejected, Save Rejected] example_App) =
     [SaveSettings (onSave_settings example_new_Settings example_App),
      SaveSettings (onSave_settings example_new_Settings example_App)]"
  by (simp add: onSave_eq onSave_settings_isFileSaved)

text \<open>
  C8, amended. In every state, two \<open>onSave\<close> in a row with no edit in between hand
  \<open>saveSettings\<close> the same document, once each; beside that one write and the update of
  \<open>isFileSaved\<close>, an invocation has one more effect only when its write is rejected: the
  one \<open>alert\<close>. The state after the second is the state before the first with
  \<open>isFileSaved\<close> set by the second.
\<close>

theorem onSave_idempotent:
  "saved_documents (fst (onSave new_Settings r1 s)) = [onSave_settings new_Settings s] \<and>
   saved_documents (fst (onSave new_Settings r2 (snd (onSave new_Settings r1 s)))) =
     [onSave_settings new_Settings s] \<and>
   fst (onSave new_Settings r1 s) =
     SaveSettings (onSave_settings new_Settings s) #
       (if r1 = Rejected then [Alert ''Error saving file.''] else []) \<and>
   fst (onSave new_Settings r2 (snd (onSave new_Settings r1 s))) =
     SaveSettings (onSave_settings new_Settings s) #
       (if r2 = Rejected then [Alert ''Error saving file.''] else []) \<and>
   snd (onSave new_Settings r2 (snd (onSave new_Settings r1 s))) =
     s\<lparr>isFileSaved := (r2 = Resolved)\<rparr> \<and>
   fst (run new_Settings [Save r1, Save r2] s) =
     fst (onSave new_Settings r1 s) @
     fst (onSave new_Settings r2 (snd (onSave new_Settings r1 s)))"
proof -
  let ?s1 = "snd (onSave new_Settings r1 s)"
  have s1: "?s1 = s\<lparr>isFileSaved := (r1 = Resolved)\<rparr>"
    by (simp add: onSave_eq)
  have same: "onSave_settings new_Settings ?s1 = onSave_settings new_Settings s"
    by (simp only: s1 onSave_settings_isFileSaved)
  have first: "fst (onSave new_Settings r1 s) =
      SaveSettings (onSave_settings new_Settings s) #
        (if r1 = Rejected then [Alert ''Error saving file.''] else [])"
    by (cases r1) (simp_all add: onSave_eq)
  have second: "fst (onSave new_Settings r2 ?s1) =
      SaveSettings (onSave_settings new_Settings s) #
        (if r2 = Rejected then [Alert ''Error saving file.''] else [])"
    using same by (cases r2) (simp_all add: onSave_eq)
  have state: "snd (onSave new_Settings r2 ?s1) = s\<lparr>isFileSaved := (r2 = Resolved)\<rparr>"
    by (simp add: onSave_eq)
  have both: "fst (run new_Settings [Save r1, Save r2] s) =
      fst (onSave new_Settings r1 s) @ fst (onSave new_Settings r2 ?s1)"
    by (simp split: prod.splits)
  from first second state both show ?thesis by simp
qed

subsection \<open>A session\<close>

text \<open>
  From the first render: the document is loaded, the sources editor reports a new list,
  the save succeeds. The flag is \<open>True\<close> at the end and the written document has the
  new list of sources.
\<close>

lemma session_example:
  "isFileSaved (snd (run example_new_Settings
      [Load (Some example_plain_document), SourcesChanged [''c.csv''], Save Resolved]
      example_App)) \<and>
   map settings_sources (saved_documents (fst (run example_new_Settings
      [Load (Some example_plain_document), SourcesChanged [''c.csv''], Save Resolved]
      example_App))) = [[''c.csv'']]"
  by (simp add: loadData_def onSave_eq onSourcesChanged_def onSave_settings_def
      loadData_begin_def loadData_resume_def)

end
